theory Spec2Isabelle
  imports Main "HOL-Library.Sublist" "HOL-Library.List_Lexorder" "HOL-Library.Char_ord"
begin

section \<open>Errors\<close>

text \<open>
  Go's \<^verbatim>\<open>error\<close> values, as far as the code tells them apart: the two package-level
  sentinels of \<^verbatim>\<open>migrator.go\<close>, the engine's sentinel \<^verbatim>\<open>migrate.ErrNoChange\<close>, the
  \<^verbatim>\<open>*strconv.NumError\<close> of \<^verbatim>\<open>ParseUint\<close> (function name, input and cause), the errors
  built with \<^verbatim>\<open>fmt.Errorf\<close> and \<^verbatim>\<open>errors.New\<close> (with their text), and the errors handed
  in from outside the package (the operating system, the engine, the migrate function),
  which the code only compares with the sentinel and passes on.
\<close>

datatype numErr = ErrSyntax | ErrRange

datatype error =
    errInvalidSequenceWidth
  | errIncompatibleSeqAndFormat
  | ErrNoChange
  | NumError string string numErr
  | Errorf string
  | errorString string
  | Foreign string

section \<open>The library functions the code calls\<close>

subsection \<open>strings\<close>

text \<open>\<^verbatim>\<open>strings.Index(s, substr)\<close>: the first position of \<open>substr\<close> in \<open>s\<close>, or -1.\<close>

fun Index :: "string \<Rightarrow> string \<Rightarrow> int" where
  "Index [] substr = (if substr = [] then 0 else -1)"
| "Index (c # s) substr =
     (if prefix substr (c # s) then 0
      else (let i = Index s substr in if i < 0 then -1 else i + 1))"

text \<open>\<^verbatim>\<open>strings.TrimPrefix(s, prefix)\<close>.\<close>

definition TrimPrefix :: "string \<Rightarrow> string \<Rightarrow> string" where
  "TrimPrefix s p = (if prefix p s then drop (length p) s else s)"

subsection \<open>strconv\<close>

definition isDigit :: "char \<Rightarrow> bool" where
  "isDigit c \<longleftrightarrow> (48::nat) \<le> of_char c \<and> of_char c \<le> (57::nat)"

definition digitVal :: "char \<Rightarrow> nat" where
  "digitVal c = of_char c - 48"

definition digitChar :: "nat \<Rightarrow> char" where
  "digitChar d = ''0123456789'' ! d"

definition maxUint64 :: nat where
  "maxUint64 = 2 ^ 64 - 1"

text \<open>
  The loop of \<^verbatim>\<open>strconv.ParseUint(s, 10, 64)\<close> over the bytes of \<open>s\<close>. With base 10 and
  a fixed base, every byte that is not a decimal digit ends in the syntax error (a letter
  because its value is at least the base, an underscore because the base is not 0). The
  accumulator is a \<^verbatim>\<open>uint64\<close>: the products and sums are taken modulo \<open>2 ^ 64\<close>, and the
  code's own tests (\<^verbatim>\<open>n >= cutoff\<close>, \<^verbatim>\<open>n1 < n || n1 > maxVal\<close>) report the overflow.
\<close>

fun parseUintLoop :: "nat \<Rightarrow> string \<Rightarrow> numErr + nat" where
  "parseUintLoop n [] = Inr n"
| "parseUintLoop n (c # cs) =
     (if \<not> isDigit c then Inl ErrSyntax
      else if n \<ge> maxUint64 div 10 + 1 then Inl ErrRange
      else (let n' = (n * 10) mod 2 ^ 64;
                n1 = (n' + digitVal c) mod 2 ^ 64
            in if n1 < n' \<or> n1 > maxUint64 then Inl ErrRange
               else parseUintLoop n1 cs))"

definition ParseUint :: "string \<Rightarrow> error + nat" where
  "ParseUint s =
     (if s = [] then Inl (NumError ''ParseUint'' s ErrSyntax)
      else (case parseUintLoop 0 s of
              Inl e \<Rightarrow> Inl (NumError ''ParseUint'' s e)
            | Inr n \<Rightarrow> Inr n))"

text \<open>The decimal digits of a natural number, most significant first.\<close>

fun dec :: "nat \<Rightarrow> string" where
  "dec n = (if n < 10 then [digitChar n] else dec (n div 10) @ [digitChar (n mod 10)])"

declare dec.simps [simp del]

text \<open>\<^verbatim>\<open>strconv.FormatInt(i, 10)\<close>, and the verb \<^verbatim>\<open>%d\<close> on a signed integer.\<close>

definition FormatInt :: "int \<Rightarrow> string" where
  "FormatInt i = (if i < 0 then CHR ''-'' # dec (nat (- i)) else dec (nat i))"

subsection \<open>fmt\<close>

text \<open>
  \<^verbatim>\<open>fmt.Sprintf("%0[2]*[1]d", v, wid)\<close> for an unsigned \<open>v\<close> and an \<^verbatim>\<open>int\<close> width taken
  from the argument list. \<^verbatim>\<open>fmt\<close> refuses a width whose magnitude is above one million:
  it writes \<^verbatim>\<open>%!(BADWIDTH)\<close> and formats the number with no width. A negative width
  left-justifies and switches the zero padding off.
\<close>

definition badWidthString :: string where
  "badWidthString = ''%!(BADWIDTH)''"

definition tooLarge :: "int \<Rightarrow> bool" where
  "tooLarge x \<longleftrightarrow> x > 1000000 \<or> x < - 1000000"

definition Sprintf_0wd :: "nat \<Rightarrow> int \<Rightarrow> string" where
  "Sprintf_0wd v wid =
     (let s = dec v in
      if tooLarge wid then badWidthString @ s
      else if wid < 0 then s @ replicate (nat (- wid) - length s) CHR '' ''
      else replicate (nat wid - length s) CHR ''0'' @ s)"

subsection \<open>path/filepath (Unix)\<close>

definition Separator :: char where
  "Separator = CHR ''/''"

text \<open>The elements of a path between its separators (empty ones included).\<close>

fun splitSep :: "string \<Rightarrow> string list" where
  "splitSep [] = [[]]"
| "splitSep (c # s) =
     (if c = Separator then [] # splitSep s
      else (case splitSep s of
              [] \<Rightarrow> [[c]]
            | e # es \<Rightarrow> (c # e) # es))"

fun joinSep :: "string list \<Rightarrow> string" where
  "joinSep [] = []"
| "joinSep [e] = e"
| "joinSep (e # es) = e @ Separator # joinSep es"

text \<open>
  \<^verbatim>\<open>filepath.Clean\<close>, element by element: empty elements and \<^verbatim>\<open>.\<close> are dropped; \<^verbatim>\<open>..\<close>
  removes the element before it when there is one that is not itself \<^verbatim>\<open>..\<close>, is dropped at
  the root, and is kept at the start of a relative path. \<open>out\<close> holds the elements written
  so far, last one first.
\<close>

fun cleanElems :: "bool \<Rightarrow> string list \<Rightarrow> string list \<Rightarrow> string list" where
  "cleanElems rooted out [] = rev out"
| "cleanElems rooted out (e # es) =
     (if e = [] \<or> e = ''.'' then cleanElems rooted out es
      else if e = ''..'' then
        (case out of
           [] \<Rightarrow> if rooted then cleanElems rooted out es else cleanElems rooted [e] es
         | t # ts \<Rightarrow> if t = ''..'' then cleanElems rooted (e # out) es
                     else cleanElems rooted ts es)
      else cleanElems rooted (e # out) es)"

definition Clean :: "string \<Rightarrow> string" where
  "Clean path =
     (if path = [] then ''.''
      else (let rooted = (hd path = Separator);
                out = (if rooted then [Separator] else []) @
                      joinSep (cleanElems rooted [] (splitSep path))
            in if out = [] then ''.'' else out))"

text \<open>\<^verbatim>\<open>filepath.Join\<close>: the elements from the first non-empty one on, joined and cleaned.\<close>

definition Join :: "string list \<Rightarrow> string" where
  "Join elem =
     (let es = dropWhile (\<lambda>e. e = []) elem
      in if es = [] then [] else Clean (joinSep es))"

text \<open>\<^verbatim>\<open>filepath.Base\<close>: the last element, trailing separators removed first.\<close>

definition Base :: "string \<Rightarrow> string" where
  "Base path =
     (if path = [] then ''.''
      else (let p = rev (dropWhile (\<lambda>c. c = Separator) (rev path));
                b = rev (takeWhile (\<lambda>c. c \<noteq> Separator) (rev p))
            in if b = [] then [Separator] else b))"

section \<open>What lies outside the package\<close>

text \<open>
  The code reads and changes the file system through \<^verbatim>\<open>filepath.Glob\<close> and
  \<^verbatim>\<open>os.WriteFile\<close>, and reads the clock and the time zone database through the
  \<^verbatim>\<open>time\<close> package. None of that is code of this repository, so the model takes it as an
  environment: \<open>'fs\<close> is the state of the file system, \<open>'loc\<close> a \<^verbatim>\<open>*time.Location\<close>,
  \<open>Now\<close> the instant \<^verbatim>\<open>time.Now()\<close> reads, in nanoseconds since the Unix epoch, and
  \<open>Format\<close> is \<^verbatim>\<open>Time.Format\<close>. The general statements below hold for every
  environment; the worked examples run in a small concrete one.
\<close>

record ('fs, 'loc) env =
  Glob :: "'fs \<Rightarrow> string \<Rightarrow> error + string list"
  WriteFile :: "'fs \<Rightarrow> string \<Rightarrow> string \<Rightarrow> error option \<times> 'fs"
  LoadLocation :: "string \<Rightarrow> error + 'loc"
  Local :: "'loc"
  Now :: int
  Format :: "'loc \<Rightarrow> int \<Rightarrow> string \<Rightarrow> string"

text \<open>
  \<^verbatim>\<open>Time.Unix\<close> counts whole seconds; \<^verbatim>\<open>Time.UnixNano\<close> computes the nanoseconds in an
  \<^verbatim>\<open>int64\<close>, which wraps around.
\<close>

definition Unix :: "int \<Rightarrow> int" where
  "Unix t = t div 1000000000"

definition UnixNano :: "int \<Rightarrow> int" where
  "UnixNano t = (t + 2 ^ 63) mod 2 ^ 64 - 2 ^ 63"

section \<open>migrator.go\<close>

definition defaultTimeFormat :: string where
  "defaultTimeFormat = ''20060102150405''"

datatype Logger = defaultLogger | userLogger string

text \<open>
  \<^verbatim>\<open>*result.MigrateSQLResult\<close> is a type of another module; the code calls its three
  methods. \<open>result_Up\<close> and \<open>result_Down\<close> list the tables with their statements in the order
  in which the \<^verbatim>\<open>range\<close> loops visit them.
\<close>

record MigrateSQLResult =
  result_Empty :: bool
  result_Up :: "(string \<times> string list) list"
  result_Down :: "(string \<times> string list) list"

text \<open>
  \<^verbatim>\<open>*migrate.Migrate\<close>, the engine: its \<^verbatim>\<open>Log\<close> field (\<open>None\<close> is the nil interface)
  and what its methods answer when called.
\<close>

record Migrate =
  Log :: "Logger option"
  migrate_Up :: "error option"
  migrate_Down :: "error option"
  migrate_Steps :: "int \<Rightarrow> error option"
  migrate_Drop :: "error option"
  migrate_Force :: "int \<Rightarrow> error option"
  migrate_Migrate :: "nat \<Rightarrow> error option"
  migrate_Close :: "error option \<times> error option"

text \<open>\<open>migrateFunc\<close> is what the call \<^verbatim>\<open>m.migrateFunc()\<close> returns.\<close>

record Migrator =
  migrate :: Migrate
  migrationsFilePath :: string
  migrateFunc :: "error + MigrateSQLResult"
  logger :: Logger

text \<open>
  \<^verbatim>\<open>New\<close>: \<open>inst\<close> is the outcome of \<^verbatim>\<open>migrate.NewWithDatabaseInstance\<close>. Only the
  \<open>logger\<close> field of the new value is set to the default logger.
\<close>

definition New :: "error + Migrate \<Rightarrow> string \<Rightarrow> error + MigrateSQLResult \<Rightarrow> error + Migrator" where
  "New inst path f =
     (case inst of
        Inl err \<Rightarrow> Inl err
      | Inr m \<Rightarrow> Inr \<lparr>migrate = m, migrationsFilePath = path, migrateFunc = f,
                      logger = defaultLogger\<rparr>)"

definition SetLogger :: "Migrator \<Rightarrow> Logger \<Rightarrow> Migrator" where
  "SetLogger m lg = m\<lparr>migrate := (migrate m)\<lparr>Log := Some lg\<rparr>, logger := lg\<rparr>"

definition nextSeqVersion ::
  "('fs, 'loc) env \<Rightarrow> 'fs \<Rightarrow> string \<Rightarrow> string \<Rightarrow> int \<Rightarrow> error + string" where
  "nextSeqVersion sys fs path ext seqDigits =
     (case Glob sys fs (Join [path, ''*'' @ ext]) of
        Inl err \<Rightarrow> Inl err
      | Inr matches \<Rightarrow>
          if seqDigits \<le> 0 then Inl errInvalidSequenceWidth
          else
            (case (if matches \<noteq> [] then
                     (let filename = last matches;
                          matchSeqStr = Base filename;
                          idx = Index matchSeqStr ''_''
                      in if idx < 1
                         then Inl (Errorf (''malformed migration filename: '' @ filename))
                         else (case ParseUint (take (nat idx) matchSeqStr) of
                                 Inl err \<Rightarrow> Inl err
                               | Inr n \<Rightarrow> Inr ((n + 1) mod 2 ^ 64)))
                   else Inr 1) of
               Inl err \<Rightarrow> Inl err
             | Inr nextSeq \<Rightarrow>
                 (let version = Sprintf_0wd nextSeq seqDigits
                  in if int (length version) > seqDigits
                     then Inl (Errorf (''next sequence number '' @ version @
                                 '' too large. At most '' @ FormatInt seqDigits @
                                 '' digits are allowed''))
                     else Inr version)))"

definition timeVersion :: "('fs, 'loc) env \<Rightarrow> string \<Rightarrow> string \<Rightarrow> error + string" where
  "timeVersion sys timeZoneName format =
     (case (if timeZoneName = [] then Inr (Local sys) else LoadLocation sys timeZoneName) of
        Inl err \<Rightarrow> Inl err
      | Inr location \<Rightarrow>
          Inr (if format = [] then Format sys location (Now sys) defaultTimeFormat
               else if format = ''unix'' then FormatInt (Unix (Now sys))
               else if format = ''unixNano'' then FormatInt (UnixNano (Now sys))
               else Format sys location (Now sys) format))"

text \<open>The extension as \<^verbatim>\<open>upAndDownFilePath\<close> rewrites it before use.\<close>

definition normExt :: "string \<Rightarrow> string" where
  "normExt ext = (if ext = [] then ''.sql'' else ''.'' @ TrimPrefix ext ''.'')"

definition upAndDownFilePath ::
  "('fs, 'loc) env \<Rightarrow> Migrator \<Rightarrow> 'fs \<Rightarrow> string \<Rightarrow> string \<Rightarrow> string \<Rightarrow> string \<Rightarrow> bool \<Rightarrow> int
     \<Rightarrow> error + string \<times> string" where
  "upAndDownFilePath sys m fs timeZoneName format name ext0 seq seqDigits =
     (if seq \<and> format \<noteq> defaultTimeFormat then Inl errIncompatibleSeqAndFormat
      else
        (let ext = normExt ext0 in
         case (if seq then nextSeqVersion sys fs (migrationsFilePath m) ext seqDigits
               else timeVersion sys timeZoneName format) of
           Inl err \<Rightarrow> Inl err
         | Inr version \<Rightarrow>
             (case Glob sys fs (Join [migrationsFilePath m, version @ ''_*'' @ ext]) of
                Inl err \<Rightarrow> Inl err
              | Inr matches \<Rightarrow>
                  if matches \<noteq> []
                  then Inl (Errorf (''duplicate migration version: '' @ version))
                  else
                    (let up = Join [migrationsFilePath m,
                                    version @ ''_'' @ name @ ''.'' @ ''up'' @ ext];
                         down = Join [migrationsFilePath m,
                                      version @ ''_'' @ name @ ''.'' @ ''up'' @ ext]
                     in Inr (up, down)))))"

text \<open>The text one buffer receives: a header line per table, then its statements.\<close>

fun writeTables :: "(string \<times> string list) list \<Rightarrow> string" where
  "writeTables [] = []"
| "writeTables ((tableName, sqlList) # rest) =
     ''--'' @ tableName @ [CHR 0x0A] @
     concat (map (\<lambda>sql. sql @ '';'' @ [CHR 0x0A]) sqlList) @ writeTables rest"

text \<open>
  How a call ends: it returns its error result (\<open>None\<close> is nil), or it panics on a method
  call through a nil interface. The calls on loggers and the lines printed are kept as a
  list of events.
\<close>

datatype completion = Returned "error option" | Panicked

text \<open>
  A message handed to a logger is a string of the source or the text \<^verbatim>\<open>err.Error()\<close>
  of an error value; the latter is kept as the error it is the text of.
\<close>

datatype msg = Str string | ErrorOf error

datatype keyval = KString string | KError "error option"

datatype event =
    Printf string
  | Info msg
  | Error msg "keyval list"
  | Fatal msg "keyval list"
  | SetVerbose bool
  | Println string

definition MakeMigrate ::
  "('fs, 'loc) env \<Rightarrow> Migrator \<Rightarrow> 'fs \<Rightarrow> string \<Rightarrow> string \<Rightarrow> string \<Rightarrow> string \<Rightarrow> bool \<Rightarrow> int
     \<Rightarrow> completion \<times> event list \<times> 'fs" where
  "MakeMigrate sys m fs timeZoneName format name ext seq seqDigits =
     (case migrateFunc m of
        Inl err \<Rightarrow> (Returned (Some err), [], fs)
      | Inr migrateResult \<Rightarrow>
          if result_Empty migrateResult then
            (case Log (migrate m) of
               None \<Rightarrow> (Panicked, [], fs)
             | Some lg \<Rightarrow> (Returned None, [Printf ''no change''], fs))
          else
            (case upAndDownFilePath sys m fs timeZoneName format name ext seq seqDigits of
               Inl err \<Rightarrow> (Returned (Some err), [], fs)
             | Inr (up, down) \<Rightarrow>
                 (let upBuffer = writeTables (result_Up migrateResult);
                      downBuffer = writeTables (result_Down migrateResult)
                  in case WriteFile sys fs up upBuffer of
                       (Some err, fs1) \<Rightarrow> (Returned (Some err), [], fs1)
                     | (None, fs1) \<Rightarrow>
                         (case WriteFile sys fs1 down downBuffer of
                            (Some err, fs2) \<Rightarrow> (Returned (Some err), [], fs2)
                          | (None, fs2) \<Rightarrow> (Returned None, [], fs2)))))"

definition Up :: "Migrator \<Rightarrow> int \<Rightarrow> error option" where
  "Up m n = (if n \<le> 0 then migrate_Up (migrate m) else migrate_Steps (migrate m) n)"

definition Down :: "Migrator \<Rightarrow> int \<Rightarrow> error option" where
  "Down m n = (if n \<le> 0 then migrate_Down (migrate m) else migrate_Steps (migrate m) (- n))"

definition Drop :: "Migrator \<Rightarrow> error option" where
  "Drop m = migrate_Drop (migrate m)"

definition Force :: "Migrator \<Rightarrow> int \<Rightarrow> error option" where
  "Force m version = migrate_Force (migrate m) version"

definition Goto :: "Migrator \<Rightarrow> nat \<Rightarrow> error option" where
  "Goto m version = migrate_Migrate (migrate m) version"

definition Close :: "Migrator \<Rightarrow> error option \<times> error option" where
  "Close m = migrate_Close (migrate m)"

section \<open>command.go\<close>

text \<open>
  The builder with the values its flag pointers point to when a handler runs. The defaults
  are the ones the flags are registered with.
\<close>

record migratorCobraCommandBuilder =
  migrator :: Migrator
  verbosePtr :: bool
  prefetchPtr :: nat
  lockTimeoutPtr :: nat
  extPtr :: string
  seqPtr :: bool
  seqDigitsPtr :: int
  formatPtr :: string
  tzPtr :: string
  allPtr :: bool
  forceDropPtr :: bool

definition flagDefaults :: "Migrator \<Rightarrow> migratorCobraCommandBuilder" where
  "flagDefaults m =
     \<lparr>migrator = m, verbosePtr = False, prefetchPtr = 10, lockTimeoutPtr = 15,
      extPtr = [], seqPtr = False, seqDigitsPtr = 6, formatPtr = [], tzPtr = [],
      allPtr = False, forceDropPtr = False\<rparr>"

text \<open>The conversion \<^verbatim>\<open>int(n)\<close> of a \<^verbatim>\<open>uint64\<close>, with \<^verbatim>\<open>int\<close> 64 bits wide.\<close>

definition int_of_uint64 :: "nat \<Rightarrow> int" where
  "int_of_uint64 n = (if n < 2 ^ 63 then int n else int n - 2 ^ 64)"

text \<open>
  A handler's run is the list of what it tells the logger and prints, in order. The
  logger's \<^verbatim>\<open>Fatal\<close> ends the process, so a run stops at its \<open>Fatal\<close> event and the
  deferred \<^verbatim>\<open>closeMigrator\<close> runs only when the handler returns. The engine's settings and
  the interrupt listener of \<^verbatim>\<open>setupMigrator\<close> leave no event. \<open>elapsed\<close> is the value of
  \<^verbatim>\<open>time.Since(startTime).Microseconds()\<close>, and \<open>response\<close> the answer read from the
  terminal after \<^verbatim>\<open>TrimSpace\<close> and \<^verbatim>\<open>ToLower\<close>.
\<close>

definition setupMigrator :: "migratorCobraCommandBuilder \<Rightarrow> event list" where
  "setupMigrator b = (if verbosePtr b then [SetVerbose (verbosePtr b)] else [])"

definition closeMigrator :: "migratorCobraCommandBuilder \<Rightarrow> event list" where
  "closeMigrator b =
     (case Close (migrator b) of
        (sourceErr, databaseErr) \<Rightarrow>
          if sourceErr \<noteq> None \<or> databaseErr \<noteq> None
          then [Error (Str ''encountered an error when close migrator'')
                  [KString ''sourceErr'', KError sourceErr,
                   KString ''databaseErr'', KError databaseErr]]
          else [])"

definition finished :: "migratorCobraCommandBuilder \<Rightarrow> int \<Rightarrow> event list" where
  "finished b elapsed =
     (if verbosePtr b then [Info (Str (''Finished After '' @ FormatInt elapsed @ '' ms''))]
      else [])"

definition gotoRun :: "migratorCobraCommandBuilder \<Rightarrow> string list \<Rightarrow> int \<Rightarrow> event list" where
  "gotoRun b args elapsed =
     setupMigrator b @
     (if length args = 0 then [Fatal (Str ''please specify version argument V'') []]
      else
        (case ParseUint (args ! 0) of
           Inl err \<Rightarrow> [Fatal (Str ''can't read version argument V'') []]
         | Inr v \<Rightarrow>
             (case Goto (migrator b) v of
                Some err \<Rightarrow>
                  if err \<noteq> ErrNoChange then [Fatal (ErrorOf err) []]
                  else [Info (ErrorOf err)] @ finished b elapsed @ closeMigrator b
              | None \<Rightarrow> finished b elapsed @ closeMigrator b)))"

definition upRun :: "migratorCobraCommandBuilder \<Rightarrow> string list \<Rightarrow> int \<Rightarrow> event list" where
  "upRun b args elapsed =
     setupMigrator b @
     (case (if length args > 0
            then (case ParseUint (args ! 0) of
                    Inl err \<Rightarrow> Inl [Fatal (Str ''can't read limit argument N'')
                                       [KString ''error'', KError (Some err)]]
                  | Inr n \<Rightarrow> Inr (int_of_uint64 n))
            else Inr (- 1)) of
        Inl stop \<Rightarrow> stop
      | Inr limit \<Rightarrow>
          (case Up (migrator b) limit of
             Some err \<Rightarrow>
               if err \<noteq> ErrNoChange then [Fatal (ErrorOf err) []]
               else [Info (ErrorOf err)] @ finished b elapsed @ closeMigrator b
           | None \<Rightarrow> finished b elapsed @ closeMigrator b))"

definition numDownMigrationsFromArgs :: "bool \<Rightarrow> string list \<Rightarrow> int \<times> bool \<times> error option" where
  "numDownMigrationsFromArgs applyAll args =
     (if applyAll then
        (if length args > 0
         then (0, False, Some (errorString ''-all cannot be used with other arguments''))
         else (- 1, False, None))
      else if length args = 0 then (- 1, True, None)
      else if length args = 1 then
        (let downValue = args ! 0
         in case ParseUint downValue of
              Inl err \<Rightarrow> (0, False, Some (errorString ''can't read limit argument N''))
            | Inr n \<Rightarrow> (int_of_uint64 n, False, None))
      else (0, False, Some (errorString ''too many arguments'')))"

definition downRun ::
  "migratorCobraCommandBuilder \<Rightarrow> string list \<Rightarrow> string \<Rightarrow> int \<Rightarrow> event list" where
  "downRun b args response elapsed =
     setupMigrator b @
     (case numDownMigrationsFromArgs (allPtr b) args of
        (num, needsConfirm, Some err) \<Rightarrow> [Fatal (ErrorOf err) []]
      | (num, needsConfirm, None) \<Rightarrow>
          (let rest =
                 (case Down (migrator b) num of
                    Some err \<Rightarrow>
                      if err \<noteq> ErrNoChange then [Fatal (ErrorOf err) []]
                      else [Info (ErrorOf err)] @ finished b elapsed @ closeMigrator b
                  | None \<Rightarrow> finished b elapsed @ closeMigrator b)
           in if needsConfirm then
                [Println ''Are you sure you want to apply all down migrations? [y/N]''] @
                (if response = ''y''
                 then [Info (Str ''Applying all down migrations'')] @ rest
                 else [Fatal (Str ''Not applying all down migrations'') []])
              else rest))"

definition dropRun ::
  "migratorCobraCommandBuilder \<Rightarrow> string list \<Rightarrow> string \<Rightarrow> int \<Rightarrow> event list" where
  "dropRun b args response elapsed =
     setupMigrator b @
     (let rest =
            (case Drop (migrator b) of
               Some err \<Rightarrow> [Fatal (ErrorOf err) []]
             | None \<Rightarrow> finished b elapsed @ closeMigrator b)
      in if \<not> forceDropPtr b then
           [Println ''Are you sure you want to drop the entire database schema? [y/N]''] @
           (if response = ''y''
            then [Info (Str ''Dropping the entire database schema'')] @ rest
            else [Fatal (Str ''Aborted dropping the entire database schema'') []])
         else rest)"

text \<open>
  In the force handler the parsed \<^verbatim>\<open>uint64\<close> is compared with the constant -1; the
  comparison is read on the integers.
\<close>

definition forceRun :: "migratorCobraCommandBuilder \<Rightarrow> string list \<Rightarrow> int \<Rightarrow> event list" where
  "forceRun b args elapsed =
     setupMigrator b @
     (if length args = 0 then [Fatal (Str ''please specify version argument V'') []]
      else
        (case ParseUint (args ! 0) of
           Inl err \<Rightarrow> [Fatal (Str ''can't read version argument V'') []]
         | Inr v \<Rightarrow>
             if int v < - 1 then [Fatal (Str ''argument V must be >= -1'') []]
             else
               (case Force (migrator b) (int_of_uint64 v) of
                  Some err \<Rightarrow> [Fatal (ErrorOf err) []]
                | None \<Rightarrow> finished b elapsed @ closeMigrator b)))"

section \<open>An environment for worked examples\<close>

text \<open>
  A directory of regular files, each a path with its content, stands for the file system
  in the examples. Its \<open>Glob\<close> lists the paths that match in sorted order and understands
  the one metacharacter the examples use, \<^verbatim>\<open>*\<close> (any run of bytes other than the
  separator); its \<open>WriteFile\<close> always succeeds and replaces the file. The clock stands at
  2023-11-14 22:13:20 UTC; \<open>Format\<close> renders the two layouts of the examples for that
  instant and copies any other layout, as \<^verbatim>\<open>Time.Format\<close> copies the text of a layout
  that is not a reference element.
\<close>

type_synonym dir = "(string \<times> string) list"

fun starMatch :: "string \<Rightarrow> string \<Rightarrow> bool" where
  "starMatch [] n = (n = [])"
| "starMatch (p # ps) [] = (p = CHR ''*'' \<and> starMatch ps [])"
| "starMatch (p # ps) (c # cs) =
     (if p = CHR ''*'' then starMatch ps (c # cs) \<or> (c \<noteq> Separator \<and> starMatch (p # ps) cs)
      else c = p \<and> starMatch ps cs)"

definition dirGlob :: "dir \<Rightarrow> string \<Rightarrow> error + string list" where
  "dirGlob fs pattern = Inr (sort (filter (starMatch pattern) (map fst fs)))"

definition dirWriteFile :: "dir \<Rightarrow> string \<Rightarrow> string \<Rightarrow> error option \<times> dir" where
  "dirWriteFile fs name data = (None, (name, data) # filter (\<lambda>e. fst e \<noteq> name) fs)"

definition exampleEnv :: "(dir, string) env" where
  "exampleEnv =
     \<lparr>Glob = dirGlob,
      WriteFile = dirWriteFile,
      LoadLocation = (\<lambda>name. if name = ''UTC'' then Inr ''UTC''
                              else Inl (Foreign (''unknown time zone '' @ name))),
      Local = ''UTC'',
      Now = 1700000000123456789,
      Format = (\<lambda>location t layout.
                  if layout = ''20060102150405'' then ''20231114221320''
                  else if layout = ''2006-01-02'' then ''2023-11-14''
                  else layout)\<rparr>"

text \<open>
  An engine that answers every call with \<open>a\<close>. Its \<^verbatim>\<open>Log\<close> field is as
  \<^verbatim>\<open>migrate.NewWithDatabaseInstance\<close> leaves it: nil.
\<close>

definition answeringEngine :: "error option \<Rightarrow> Migrate" where
  "answeringEngine a =
     \<lparr>Log = None, migrate_Up = a, migrate_Down = a, migrate_Steps = (\<lambda>n. a),
      migrate_Drop = a, migrate_Force = (\<lambda>v. a), migrate_Migrate = (\<lambda>v. a),
      migrate_Close = (None, None)\<rparr>"

definition exampleEngine :: Migrate where
  "exampleEngine = answeringEngine None"

text \<open>An engine whose every method fails with an error that names the method called.\<close>

definition namedEngine :: Migrate where
  "namedEngine =
     \<lparr>Log = None, migrate_Up = Some (Foreign ''Up''), migrate_Down = Some (Foreign ''Down''),
      migrate_Steps = (\<lambda>n. Some (Foreign (''Steps '' @ FormatInt n))),
      migrate_Drop = Some (Foreign ''Drop''),
      migrate_Force = (\<lambda>v. Some (Foreign (''Force '' @ FormatInt v))),
      migrate_Migrate = (\<lambda>v. Some (Foreign (''Migrate '' @ dec v))),
      migrate_Close = (None, None)\<rparr>"

definition exampleResult :: MigrateSQLResult where
  "exampleResult =
     \<lparr>result_Empty = False,
      result_Up = [(''users'', [''CREATE TABLE users (id INT)''])],
      result_Down = [(''users'', [''DROP TABLE users''])]\<rparr>"

definition exampleMigrator :: Migrator where
  "exampleMigrator =
     \<lparr>migrate = exampleEngine, migrationsFilePath = ''migrations'',
      migrateFunc = Inr exampleResult, logger = defaultLogger\<rparr>"

definition emptyResult :: MigrateSQLResult where
  "emptyResult = \<lparr>result_Empty = True, result_Up = [], result_Down = []\<rparr>"

definition builderWith :: "Migrate \<Rightarrow> migratorCobraCommandBuilder" where
  "builderWith e = flagDefaults (exampleMigrator\<lparr>migrate := e\<rparr>)"

section \<open>Properties\<close>

text \<open>Whether a run ends the process with \<^verbatim>\<open>Fatal\<close>.\<close>

fun fatal :: "event list \<Rightarrow> bool" where
  "fatal [] = False"
| "fatal (Fatal m kv # es) = True"
| "fatal (e # es) = fatal es"

text \<open>The number that decimal digits denote when they continue the number \<open>a\<close>.\<close>

fun decVal :: "nat \<Rightarrow> string \<Rightarrow> nat" where
  "decVal a [] = a"
| "decVal a (c # cs) = decVal (a * 10 + digitVal c) cs"

subsection \<open>Evaluating the examples\<close>

lemma replicate_num: "replicate (numeral k) x = x # replicate (pred_numeral k) x"
  by (simp add: numeral_eq_Suc)

lemma exampleEnv_sel:
  "Glob exampleEnv = dirGlob"
  "WriteFile exampleEnv = dirWriteFile"
  "Local exampleEnv = ''UTC''"
  "Now exampleEnv = 1700000000123456789"
  "Format exampleEnv location t layout =
     (if layout = ''20060102150405'' then ''20231114221320''
      else if layout = ''2006-01-02'' then ''2023-11-14'' else layout)"
  "LoadLocation exampleEnv name =
     (if name = ''UTC'' then Inr ''UTC'' else Inl (Foreign (''unknown time zone '' @ name)))"
  by (simp_all add: exampleEnv_def)

lemma exampleMigrator_sel:
  "migrate exampleMigrator = exampleEngine"
  "migrationsFilePath exampleMigrator = ''migrations''"
  "migrateFunc exampleMigrator = Inr exampleResult"
  "logger exampleMigrator = defaultLogger"
  by (simp_all add: exampleMigrator_def)

lemma builderWith_sel:
  "migrate (migrator (builderWith e)) = e"
  "verbosePtr (builderWith e) = False"
  "allPtr (builderWith e) = False"
  "forceDropPtr (builderWith e) = False"
  by (simp_all add: builderWith_def flagDefaults_def)

lemma timeVersion_example: "timeVersion exampleEnv [] [] = Inr ''20231114221320''"
  by (simp add: timeVersion_def exampleEnv_sel defaultTimeFormat_def)

lemma Join_example:
  "Join [''migrations'', ''20231114221320'' @ ''_*'' @ ''.sql''] =
     ''migrations/20231114221320_*.sql''"
  by (simp add: Join_def Clean_def Separator_def)

lemma dirGlob_example:
  "dirGlob [(''migrations/20231114221320_first.up.sql'', ''x'')]
      ''migrations/20231114221320_*.sql'' = Inr [''migrations/20231114221320_first.up.sql'']"
  "dirGlob [] pattern = Inr []"
  by (simp_all add: dirGlob_def Separator_def)

lemma ParseUint_example:
  "ParseUint ''3'' = Inr 3"
  "ParseUint ''18446744073709551615'' = Inr 18446744073709551615"
  by (simp_all add: ParseUint_def isDigit_def digitVal_def maxUint64_def)

lemma nextSeqVersion_example:
  "nextSeqVersion exampleEnv [] ''migrations'' ''.sql'' 6 = Inr ''000001''"
  by (simp add: replicate_num Let_def nextSeqVersion_def exampleEnv_sel dirGlob_example
      Sprintf_0wd_def tooLarge_def dec.simps digitChar_def)

subsection \<open>Decimal numerals\<close>

text \<open>
  \<^verbatim>\<open>ParseUint\<close> accepts exactly the non-empty strings of decimal digits whose number is
  below \<open>2 ^ 64\<close> and returns that number; it reads back what \<open>dec\<close> writes; and \<open>dec n\<close>
  has at most \<open>w\<close> digits exactly when \<open>n\<close> is below \<open>10 ^ w\<close>.
\<close>

lemma decVal_ge: "a \<le> decVal a cs"
proof (induction cs arbitrary: a)
  case Nil
  show ?case by simp
next
  case (Cons c cs)
  have "a \<le> a * 10 + digitVal c" by simp
  also have "\<dots> \<le> decVal (a * 10 + digitVal c) cs" by (rule Cons.IH)
  finally show ?case by simp
qed

lemma digit_cases:
  assumes "d < (10::nat)"
  obtains "d = 0" | "d = 1" | "d = 2" | "d = 3" | "d = 4" | "d = 5" | "d = 6" | "d = 7" | "d = 8" | "d = 9"
proof -
  have "d = 0 \<or> d = 1 \<or> d = 2 \<or> d = 3 \<or> d = 4 \<or> d = 5 \<or> d = 6 \<or> d = 7 \<or> d = 8 \<or> d = 9"
    using assms by presburger
  then show thesis
    using that by blast
qed

lemma digitChar_props:
  assumes "d < 10"
  shows "isDigit (digitChar d)" and "digitVal (digitChar d) = d" and "digitChar d \<noteq> CHR ''_''"
  using assms by (cases d rule: digit_cases; simp add: digitChar_def isDigit_def digitVal_def)+

lemma isDigit_val: "isDigit c \<Longrightarrow> digitVal c \<le> 9"
  by (auto simp: isDigit_def digitVal_def)

lemma parseUintLoop_digits:
  assumes "\<forall>c\<in>set ds. isDigit c" and "n < 2 ^ 64"
  shows "parseUintLoop n ds =
           (if decVal n ds < 2 ^ 64 then Inr (decVal n ds) else Inl ErrRange)"
  using assms
proof (induction ds arbitrary: n)
  case Nil
  then show ?case by simp
next
  case (Cons c cs)
  then have dig: "isDigit c" and rest: "\<forall>c\<in>set cs. isDigit c"
    by simp_all
  have d9: "digitVal c \<le> 9"
    using dig by (rule isDigit_val)
  show ?case
  proof (cases "n \<ge> maxUint64 div 10 + 1")
    case True
    then have "2 ^ 64 \<le> n * 10 + digitVal c"
      by (simp add: maxUint64_def)
    also have "\<dots> \<le> decVal (n * 10 + digitVal c) cs"
      by (rule decVal_ge)
    finally show ?thesis
      using True dig by simp
  next
    case False
    then have small: "n * 10 < 2 ^ 64"
      by (simp add: maxUint64_def)
    show ?thesis
    proof (cases "n * 10 + digitVal c < 2 ^ 64")
      case True
      then have "parseUintLoop (n * 10 + digitVal c) cs =
          (if decVal (n * 10 + digitVal c) cs < 2 ^ 64
           then Inr (decVal (n * 10 + digitVal c) cs) else Inl ErrRange)"
        using Cons.IH rest by simp
      then show ?thesis
        using False dig small True by (simp add: Let_def maxUint64_def)
    next
      case over: False
      have "2 ^ 64 \<le> decVal (n * 10 + digitVal c) cs"
        using over decVal_ge [of "n * 10 + digitVal c" cs] by simp
      moreover have "(n * 10 + digitVal c) mod 2 ^ 64 = n * 10 + digitVal c - 2 ^ 64"
        using over small d9 by (simp add: mod_if)
      moreover have "n * 10 + digitVal c - 2 ^ 64 < n * 10"
        using over small d9 by simp
      ultimately show ?thesis
        using False dig small by (simp add: Let_def)
    qed
  qed
qed

lemma parseUintLoop_Inr:
  "parseUintLoop n ds = Inr v \<Longrightarrow> \<forall>c\<in>set ds. isDigit c"
  by (induction ds arbitrary: n) (auto simp: Let_def split: if_splits)

lemma ParseUint_digits:
  assumes "ds \<noteq> []" and "\<forall>c\<in>set ds. isDigit c"
  shows "ParseUint ds =
           (if decVal 0 ds < 2 ^ 64 then Inr (decVal 0 ds)
            else Inl (NumError ''ParseUint'' ds ErrRange))"
  using assms parseUintLoop_digits [of ds 0] by (simp add: ParseUint_def)

lemma ParseUint_Inr:
  assumes "ParseUint s = Inr v"
  shows "s \<noteq> [] \<and> (\<forall>c\<in>set s. isDigit c) \<and> v = decVal 0 s \<and> v < 2 ^ 64"
proof -
  have ne: "s \<noteq> []"
    using assms by (auto simp: ParseUint_def)
  then have loop: "parseUintLoop 0 s = Inr v"
    using assms by (auto simp: ParseUint_def split: sum.splits)
  then have dig: "\<forall>c\<in>set s. isDigit c"
    by (rule parseUintLoop_Inr)
  show ?thesis
    using ne dig loop parseUintLoop_digits [of s 0] by (auto split: if_splits)
qed

lemma decVal_append: "decVal a (xs @ ys) = decVal (decVal a xs) ys"
  by (induction xs arbitrary: a) simp_all

lemma dec_props: "(\<forall>c\<in>set (dec n). isDigit c) \<and> decVal 0 (dec n) = n \<and> dec n \<noteq> []"
proof (induction n rule: dec.induct)
  case (1 n)
  show ?case
  proof (cases "n < 10")
    case True
    then show ?thesis
      using digitChar_props [of n] by (simp add: dec.simps [of n])
  next
    case False
    have m: "n mod 10 < 10" by simp
    show ?thesis
      using False 1 digitChar_props [OF m]
      by (simp add: dec.simps [of n] decVal_append)
  qed
qed

lemma ParseUint_dec: "n < 2 ^ 64 \<Longrightarrow> ParseUint (dec n) = Inr n"
  using dec_props [of n] ParseUint_digits [of "dec n"] by simp

lemma length_dec: "0 < w \<Longrightarrow> length (dec n) \<le> w \<longleftrightarrow> n < 10 ^ w"
proof (induction n arbitrary: w rule: dec.induct)
  case (1 n)
  show ?case
  proof (cases "n < 10")
    case True
    have "(10::nat) ^ 1 \<le> 10 ^ w"
      using 1(2) by (intro power_increasing) simp_all
    then show ?thesis
      using True 1(2) by (simp add: dec.simps [of n])
  next
    case False
    show ?thesis
    proof (cases "w = 1")
      case True
      then show ?thesis
        using False dec_props [of "n div 10"] by (simp add: dec.simps [of n])
    next
      case w2: False
      then have w1: "0 < w - 1"
        using 1(2) by simp
      have "length (dec (n div 10)) \<le> w - 1 \<longleftrightarrow> n div 10 < 10 ^ (w - 1)"
        using 1(1) [OF False w1] .
      moreover have "n div 10 < 10 ^ (w - 1) \<longleftrightarrow> n < 10 ^ w"
      proof -
        have "(10::nat) ^ w = 10 ^ (w - 1) * 10"
          using 1(2) by (cases w) simp_all
        then show ?thesis
          by (simp add: less_mult_imp_div_less div_less_iff_less_mult)
      qed
      ultimately show ?thesis
        using False 1(2) by (simp add: dec.simps [of n]) linarith
    qed
  qed
qed

lemma isDigit_not_underscore: "isDigit c \<Longrightarrow> c \<noteq> CHR ''_''"
  by (auto simp: isDigit_def)

lemma Index_underscore:
  "\<forall>c\<in>set ds. c \<noteq> CHR ''_'' \<Longrightarrow> Index (ds @ ''_'' @ rest) ''_'' = int (length ds)"
  by (induction ds) (auto simp: Let_def)

lemma Sprintf_0wd_pad:
  "0 \<le> w \<Longrightarrow> w \<le> 1000000 \<Longrightarrow>
   Sprintf_0wd v w = replicate (nat w - length (dec v)) CHR ''0'' @ dec v"
  by (simp add: Sprintf_0wd_def tooLarge_def Let_def)

lemma dec_1: "dec 1 = ''1''" "dec (Suc 0) = ''1''"
  by (simp_all add: dec.simps digitChar_def)

subsection \<open>The pair of file paths\<close>

lemma upAndDownFilePath_down_is_up:
  "upAndDownFilePath sys m fs tz format name ext seq seqDigits = Inr (up, down) \<Longrightarrow> down = up"
  by (auto simp: upAndDownFilePath_def Let_def split: if_splits sum.splits)

text \<open>
  C1. The claim asks for two different paths, one ending in \<^verbatim>\<open>.up.<ext>\<close> and one in
  \<^verbatim>\<open>.down.<ext>\<close>. The code builds the second path with the word \<^verbatim>\<open>up\<close> as well, so both
  paths are the same (\<open>upAndDownFilePath_down_is_up\<close>, for every input). In the example,
  \<^verbatim>\<open>create init\<close> in an empty directory: both paths are
  \<^verbatim>\<open>migrations/20231114221320_init.up.sql\<close>, and after \<^verbatim>\<open>MakeMigrate\<close> the directory holds
  that one file, with the down statements in it, and no \<^verbatim>\<open>.down.\<close> file.
\<close>

theorem MakeMigrate_writes_up_path_twice:
  "upAndDownFilePath exampleEnv exampleMigrator [] [] [] ''init'' [] False 6 =
     Inr (''migrations/20231114221320_init.up.sql'', ''migrations/20231114221320_init.up.sql'') \<and>
   MakeMigrate exampleEnv exampleMigrator [] [] [] ''init'' [] False 6 =
     (Returned None, [],
      [(''migrations/20231114221320_init.up.sql'',
        ''--users'' @ [CHR 0x0A] @ ''DROP TABLE users;'' @ [CHR 0x0A])])"
proof -
  have up: "upAndDownFilePath exampleEnv exampleMigrator [] [] [] ''init'' [] False 6 =
     Inr (''migrations/20231114221320_init.up.sql'', ''migrations/20231114221320_init.up.sql'')"
    by (simp add: Let_def upAndDownFilePath_def timeVersion_example normExt_def exampleEnv_sel
        exampleMigrator_sel dirGlob_example Join_def Clean_def Separator_def)
  then show ?thesis
    by (simp add: MakeMigrate_def exampleMigrator_sel exampleResult_def exampleEnv_sel
        dirWriteFile_def)
qed

subsection \<open>Sequential mode and the format\<close>

lemma upAndDownFilePath_seq_format:
  "seq \<Longrightarrow> format \<noteq> defaultTimeFormat \<Longrightarrow>
   upAndDownFilePath sys m fs tz format name ext seq seqDigits = Inl errIncompatibleSeqAndFormat"
  by (simp add: upAndDownFilePath_def)

lemma upAndDownFilePath_seq_no_format:
  "upAndDownFilePath sys m fs tz [] name ext True seqDigits = Inl errIncompatibleSeqAndFormat"
  by (simp add: upAndDownFilePath_def defaultTimeFormat_def)

text \<open>
  C2. The claim says that with \<^verbatim>\<open>seq\<close> set and no format given the version comes from
  \<^verbatim>\<open>nextSeqVersion\<close>. The guard of \<^verbatim>\<open>upAndDownFilePath\<close> compares the format with
  \<^verbatim>\<open>defaultTimeFormat\<close>, while the \<^verbatim>\<open>-format\<close> flag defaults to the empty string (which
  \<^verbatim>\<open>timeVersion\<close> reads as the default layout). So with the registered defaults and
  \<^verbatim>\<open>-seq\<close> alone the call is refused as a clash of \<^verbatim>\<open>seq\<close> and \<^verbatim>\<open>format\<close>, in every
  environment (\<open>upAndDownFilePath_seq_no_format\<close>), although \<^verbatim>\<open>nextSeqVersion\<close> would
  have answered \<^verbatim>\<open>000001\<close>.
\<close>

theorem seq_with_default_format_refused:
  "seqPtr ((flagDefaults exampleMigrator)\<lparr>seqPtr := True\<rparr>) \<and>
   formatPtr ((flagDefaults exampleMigrator)\<lparr>seqPtr := True\<rparr>) = [] \<and>
   nextSeqVersion exampleEnv [] ''migrations'' ''.sql'' 6 = Inr ''000001'' \<and>
   upAndDownFilePath exampleEnv exampleMigrator [] [] [] ''init'' [] True 6 =
     Inl errIncompatibleSeqAndFormat \<and>
   MakeMigrate exampleEnv exampleMigrator [] [] [] ''init'' [] True 6 =
     (Returned (Some errIncompatibleSeqAndFormat), [], [])"
  by (simp add: nextSeqVersion_example flagDefaults_def upAndDownFilePath_def
      defaultTimeFormat_def MakeMigrate_def exampleMigrator_sel exampleResult_def)

subsection \<open>The next sequential version\<close>

text \<open>
  In range the code does what the claim says: a width of at most 0 is refused; with no
  match the version is 1 padded to the width; after a file whose name starts with the
  digits of \<open>V\<close> and an underscore the version is \<open>V + 1\<close> padded to the width when
  \<open>V + 1\<close> has at most that many digits, and the error otherwise. Here the width is at
  most one million and \<open>V + 1\<close> is below \<open>2 ^ 64\<close>.
\<close>

lemma nextSeqVersion_invalid_width:
  assumes "Glob sys fs (Join [path, ''*'' @ ext]) = Inr matches" and "seqDigits \<le> 0"
  shows "nextSeqVersion sys fs path ext seqDigits = Inl errInvalidSequenceWidth"
  using assms by (simp add: nextSeqVersion_def)

lemma nextSeqVersion_no_match:
  assumes "Glob sys fs (Join [path, ''*'' @ ext]) = Inr []"
    and "0 < seqDigits" and "seqDigits \<le> 1000000"
  shows "nextSeqVersion sys fs path ext seqDigits =
           Inr (replicate (nat seqDigits - 1) CHR ''0'' @ ''1'')"
proof -
  have "int (length (replicate (nat seqDigits - 1) CHR ''0'' @ ''1'')) = seqDigits"
    using assms(2) by simp
  then show ?thesis
    using assms by (simp add: nextSeqVersion_def Let_def Sprintf_0wd_pad dec_1)
qed

lemma nextSeqVersion_in_range:
  assumes glob: "Glob sys fs (Join [path, ''*'' @ ext]) = Inr matches" and "matches \<noteq> []"
    and base: "Base (last matches) = ds @ ''_'' @ rest"
    and ds: "ds \<noteq> []" "\<forall>c\<in>set ds. isDigit c"
    and v: "V = decVal 0 ds" "V + 1 < 2 ^ 64"
    and w: "0 < seqDigits" "seqDigits \<le> 1000000"
  shows "nextSeqVersion sys fs path ext seqDigits =
           (if V + 1 < 10 ^ nat seqDigits
            then Inr (replicate (nat seqDigits - length (dec (V + 1))) CHR ''0'' @ dec (V + 1))
            else Inl (Errorf (''next sequence number '' @ dec (V + 1) @
                        '' too large. At most '' @ FormatInt seqDigits @
                        '' digits are allowed'')))"
proof -
  have "\<forall>c\<in>set ds. c \<noteq> CHR ''_''"
    using ds(2) isDigit_not_underscore by blast
  then have idx: "Index (Base (last matches)) ''_'' = int (length ds)"
    using Index_underscore [of ds rest] by (simp add: base)
  have pos: "\<not> int (length ds) < 1"
    using ds(1) by (cases ds) simp_all
  have parse: "ParseUint (take (length ds) (Base (last matches))) = Inr V"
    using ParseUint_digits [OF ds] v by (simp add: base)
  have incr: "(V + 1) mod 2 ^ 64 = V + 1"
    using v(2) by simp
  have ver: "Sprintf_0wd (V + 1) seqDigits =
      replicate (nat seqDigits - length (dec (V + 1))) CHR ''0'' @ dec (V + 1)"
    using w by (simp add: Sprintf_0wd_pad)
  have len: "length (dec (V + 1)) \<le> nat seqDigits \<longleftrightarrow> V + 1 < 10 ^ nat seqDigits"
    using w(1) by (intro length_dec) simp
  have fits: "replicate (nat seqDigits - length (dec (V + 1))) CHR ''0'' @ dec (V + 1) = dec (V + 1)"
    if "\<not> V + 1 < 10 ^ nat seqDigits"
    using that len by simp
  have "nextSeqVersion sys fs path ext seqDigits =
      (let version = Sprintf_0wd (V + 1) seqDigits
       in if int (length version) > seqDigits
          then Inl (Errorf (''next sequence number '' @ version @
                      '' too large. At most '' @ FormatInt seqDigits @
                      '' digits are allowed''))
          else Inr version)"
    using glob assms(2) w(1) idx pos parse incr
    by (simp add: nextSeqVersion_def Let_def)
  also have "\<dots> = (if V + 1 < 10 ^ nat seqDigits
            then Inr (replicate (nat seqDigits - length (dec (V + 1))) CHR ''0'' @ dec (V + 1))
            else Inl (Errorf (''next sequence number '' @ dec (V + 1) @
                        '' too large. At most '' @ FormatInt seqDigits @
                        '' digits are allowed'')))"
  proof (cases "V + 1 < 10 ^ nat seqDigits")
    case True
    then have "length (dec (V + 1)) \<le> nat seqDigits"
      using len by simp
    then show ?thesis
      using True w(1) ver by (simp add: Let_def)
  next
    case False
    then have "nat seqDigits < length (dec (V + 1))"
      using len by simp
    then show ?thesis
      using False w(1) fits [OF False] ver by (simp add: Let_def)
  qed
  finally show ?thesis .
qed

text \<open>
  C3. The claim says that after version \<open>V\<close> the next version is \<open>V + 1\<close> padded to the
  width, and an error when \<open>V + 1\<close> needs more digits than the width. The counter is a
  \<^verbatim>\<open>uint64\<close> and \<^verbatim>\<open>nextSeq++\<close> wraps: after version 18446744073709551615 the code
  answers \<^verbatim>\<open>000000\<close> for width 6, with no error. A width above one million is a second
  input the length test misses: \<^verbatim>\<open>fmt\<close> refuses the width and the version is
  \<^verbatim>\<open>%!(BADWIDTH)1\<close>.
\<close>

theorem nextSeqVersion_wraps_to_zero:
  "nextSeqVersion exampleEnv [(''migrations/18446744073709551615_init.up.sql'', [])]
      ''migrations'' ''.sql'' 6 = Inr ''000000'' \<and>
   nextSeqVersion exampleEnv [] ''migrations'' ''.sql'' 1000001 = Inr ''%!(BADWIDTH)1''"
  by (simp add: replicate_num Let_def nextSeqVersion_def exampleEnv_sel dirGlob_def
      Sprintf_0wd_def tooLarge_def dec.simps digitChar_def badWidthString_def Join_def Clean_def
      Separator_def Base_def ParseUint_def isDigit_def digitVal_def maxUint64_def)

subsection \<open>Duplicate versions\<close>

text \<open>
  C4. When the migrate function reports a change, a version is computed, and the glob
  \<^verbatim>\<open><version>_*<ext>\<close> in the migrations directory finds a file, \<^verbatim>\<open>MakeMigrate\<close> returns
  the duplicate-version error for that version, tells the logger nothing, and hands the
  file system back as it received it: no write has happened, whatever \<^verbatim>\<open>WriteFile\<close> would
  have done.
\<close>

theorem MakeMigrate_duplicate_version:
  assumes "migrateFunc m = Inr r" and "\<not> result_Empty r"
    and "\<not> (seq \<and> format \<noteq> defaultTimeFormat)"
    and "(if seq then nextSeqVersion sys fs (migrationsFilePath m) (normExt ext) seqDigits
          else timeVersion sys tz format) = Inr version"
    and "Glob sys fs (Join [migrationsFilePath m, version @ ''_*'' @ normExt ext]) = Inr matches"
    and "matches \<noteq> []"
  shows "MakeMigrate sys m fs tz format name ext seq seqDigits =
           (Returned (Some (Errorf (''duplicate migration version: '' @ version))), [], fs)"
proof -
  have "upAndDownFilePath sys m fs tz format name ext seq seqDigits =
          Inl (Errorf (''duplicate migration version: '' @ version))"
    using assms(3-6) by (simp add: upAndDownFilePath_def Let_def)
  then show ?thesis
    using assms(1,2) by (simp add: MakeMigrate_def)
qed

theorem MakeMigrate_duplicate_version_witness:
  "MakeMigrate exampleEnv exampleMigrator [(''migrations/20231114221320_first.up.sql'', ''x'')]
      [] [] ''init'' [] False 6 =
     (Returned (Some (Errorf ''duplicate migration version: 20231114221320'')), [],
      [(''migrations/20231114221320_first.up.sql'', ''x'')])"
proof -
  have 1: "migrateFunc exampleMigrator = Inr exampleResult"
    by (simp add: exampleMigrator_sel)
  have 2: "\<not> result_Empty exampleResult"
    by (simp add: exampleResult_def)
  have 3: "\<not> (False \<and> [] \<noteq> defaultTimeFormat)"
    by simp
  have 4: "(if False
            then nextSeqVersion exampleEnv [(''migrations/20231114221320_first.up.sql'', ''x'')]
                   (migrationsFilePath exampleMigrator) (normExt []) 6
            else timeVersion exampleEnv [] []) = Inr ''20231114221320''"
    by (simp add: timeVersion_example)
  have 5: "Glob exampleEnv [(''migrations/20231114221320_first.up.sql'', ''x'')]
             (Join [migrationsFilePath exampleMigrator,
                    ''20231114221320'' @ ''_*'' @ normExt []]) =
           Inr [''migrations/20231114221320_first.up.sql'']"
    using Join_example dirGlob_example(1)
    by (simp add: exampleEnv_sel exampleMigrator_sel normExt_def)
  have 6: "[''migrations/20231114221320_first.up.sql''] \<noteq> []"
    by simp
  show ?thesis
    using MakeMigrate_duplicate_version [OF 1 2 3 4 5 6, of "''init''"] by simp
qed

subsection \<open>An empty migration result\<close>

lemma MakeMigrate_empty_logged:
  assumes "migrateFunc m = Inr r" and "result_Empty r" and "Log (migrate m) = Some lg"
  shows "MakeMigrate sys m fs tz format name ext seq seqDigits =
           (Returned None, [Printf ''no change''], fs)"
  using assms by (simp add: MakeMigrate_def)

lemma MakeMigrate_empty_SetLogger:
  assumes "migrateFunc m = Inr r" and "result_Empty r"
  shows "MakeMigrate sys (SetLogger m lg) fs tz format name ext seq seqDigits =
           (Returned None, [Printf ''no change''], fs)"
  using assms by (simp add: MakeMigrate_def SetLogger_def)

text \<open>
  C5. The claim says that on an empty result \<^verbatim>\<open>MakeMigrate\<close> writes nothing, logs
  \<^verbatim>\<open>no change\<close> and returns nil. The code logs through \<^verbatim>\<open>m.migrate.Log\<close>, the engine's
  own field, while \<^verbatim>\<open>New\<close> installs the default logger in \<^verbatim>\<open>m.logger\<close> only, the
  field every other message goes to. On the value \<^verbatim>\<open>New\<close> returns the engine's field is
  nil and the call panics; the claim holds once \<^verbatim>\<open>SetLogger\<close> has been called
  (\<open>MakeMigrate_empty_SetLogger\<close>).
\<close>

theorem MakeMigrate_empty_after_New_panics:
  "New (Inr exampleEngine) ''migrations'' (Inr emptyResult) =
     Inr (exampleMigrator\<lparr>migrateFunc := Inr emptyResult\<rparr>) \<and>
   MakeMigrate exampleEnv (exampleMigrator\<lparr>migrateFunc := Inr emptyResult\<rparr>)
       [] [] [] ''init'' [] False 6 =
     (Panicked, [], [])"
  by (simp add: New_def exampleMigrator_def MakeMigrate_def emptyResult_def exampleEngine_def
      answeringEngine_def)

subsection \<open>Time versions\<close>

lemma UnixNano_in_range:
  fixes t :: int
  assumes "- (2 ^ 63) \<le> t" and "t < 2 ^ 63"
  shows "UnixNano t = t"
proof -
  have "0 \<le> t + 2 ^ 63" and "t + 2 ^ 63 < 2 ^ 64"
    using assms by simp_all
  then have "(t + 2 ^ 63) mod 2 ^ 64 = t + 2 ^ 63"
    by (rule mod_pos_pos_trivial)
  then show ?thesis
    by (simp add: UnixNano_def)
qed

text \<open>
  C7. \<^verbatim>\<open>timeVersion\<close> fails with the error of \<^verbatim>\<open>time.LoadLocation\<close> when a time zone is
  named and not known. Otherwise, with \<open>location\<close> the local zone for the empty name and
  the loaded zone for any other name, it renders the instant read from the clock: with the
  layout \<^verbatim>\<open>20060102150405\<close> for the empty format, as the decimal number of whole seconds
  since the epoch for \<^verbatim>\<open>unix\<close>, as the decimal number of nanoseconds since the epoch for
  \<^verbatim>\<open>unixNano\<close> (for an instant whose nanoseconds fit the \<^verbatim>\<open>int64\<close> that \<^verbatim>\<open>UnixNano\<close>
  returns, the years 1678 to 2262), and with the format itself as the layout otherwise.
\<close>

theorem timeVersion_formats:
  "(tz \<noteq> [] \<and> LoadLocation sys tz = Inl err \<longrightarrow> timeVersion sys tz format = Inl err) \<and>
   (location = (if tz = [] then Local sys else l) \<and>
    (tz \<noteq> [] \<longrightarrow> LoadLocation sys tz = Inr l) \<longrightarrow>
      timeVersion sys tz [] = Inr (Format sys location (Now sys) ''20060102150405'') \<and>
      timeVersion sys tz ''unix'' = Inr (FormatInt (Now sys div 1000000000)) \<and>
      (- (2 ^ 63) \<le> Now sys \<and> Now sys < 2 ^ 63 \<longrightarrow>
         timeVersion sys tz ''unixNano'' = Inr (FormatInt (Now sys))) \<and>
      (format \<noteq> [] \<and> format \<noteq> ''unix'' \<and> format \<noteq> ''unixNano'' \<longrightarrow>
         timeVersion sys tz format = Inr (Format sys location (Now sys) format)))"
  using UnixNano_in_range [of "Now sys"]
  by (auto simp: timeVersion_def defaultTimeFormat_def Unix_def)

theorem timeVersion_formats_witness:
  "timeVersion exampleEnv ''Mars/Olympus'' ''unix'' =
     Inl (Foreign ''unknown time zone Mars/Olympus'') \<and>
   timeVersion exampleEnv ''UTC'' [] = Inr ''20231114221320'' \<and>
   timeVersion exampleEnv ''UTC'' ''unix'' = Inr ''1700000000'' \<and>
   timeVersion exampleEnv ''UTC'' ''unixNano'' = Inr ''1700000000123456789'' \<and>
   timeVersion exampleEnv ''UTC'' ''2006-01-02'' = Inr ''2023-11-14'' \<and>
   timeVersion exampleEnv [] ''2006-01-02'' = Inr ''2023-11-14''"
  using
    timeVersion_formats [where sys = exampleEnv and tz = "''Mars/Olympus''" and format = "''unix''"
      and err = "Foreign ''unknown time zone Mars/Olympus''" and location = "''UTC''"
      and l = "''UTC''"]
    timeVersion_formats [where sys = exampleEnv and tz = "''UTC''" and format = "''2006-01-02''"
      and err = "Foreign ''unknown time zone Mars/Olympus''" and location = "''UTC''"
      and l = "''UTC''"]
    timeVersion_formats [where sys = exampleEnv and tz = "[]" and format = "''2006-01-02''"
      and err = "Foreign ''unknown time zone Mars/Olympus''" and location = "''UTC''"
      and l = "''UTC''"]
  by (simp add: exampleEnv_sel FormatInt_def dec.simps digitChar_def)

subsection \<open>Engine errors in the command handlers\<close>

lemma fatal_append [simp]: "fatal (xs @ ys) \<longleftrightarrow> fatal xs \<or> fatal ys"
  by (induction xs rule: fatal.induct) simp_all

lemma no_fatal_parts [simp]:
  "\<not> fatal (setupMigrator b)" "\<not> fatal (finished b elapsed)" "\<not> fatal (closeMigrator b)"
  by (simp_all add: setupMigrator_def finished_def closeMigrator_def split: prod.splits)

lemma gotoRun_engine:
  assumes "args \<noteq> []" and "ParseUint (args ! 0) = Inr v"
  shows "gotoRun b args elapsed = setupMigrator b @
           (case Goto (migrator b) v of
              Some err \<Rightarrow> if err \<noteq> ErrNoChange then [Fatal (ErrorOf err) []]
                          else [Info (ErrorOf err)] @ finished b elapsed @ closeMigrator b
            | None \<Rightarrow> finished b elapsed @ closeMigrator b)"
  using assms by (simp add: gotoRun_def)

lemma upRun_engine:
  assumes "limit = (if args = [] then - 1 else int_of_uint64 n)"
    and "args \<noteq> [] \<longrightarrow> ParseUint (args ! 0) = Inr n"
  shows "upRun b args elapsed = setupMigrator b @
           (case Up (migrator b) limit of
              Some err \<Rightarrow> if err \<noteq> ErrNoChange then [Fatal (ErrorOf err) []]
                          else [Info (ErrorOf err)] @ finished b elapsed @ closeMigrator b
            | None \<Rightarrow> finished b elapsed @ closeMigrator b)"
  using assms by (cases "args = []") (simp_all add: upRun_def)

lemma downRun_engine:
  assumes "numDownMigrationsFromArgs (allPtr b) args = (num, needsConfirm, None)"
    and "needsConfirm \<longrightarrow> response = ''y''"
  shows "downRun b args response elapsed = setupMigrator b @
           (if needsConfirm
            then [Println ''Are you sure you want to apply all down migrations? [y/N]'',
                  Info (Str ''Applying all down migrations'')]
            else []) @
           (case Down (migrator b) num of
              Some err \<Rightarrow> if err \<noteq> ErrNoChange then [Fatal (ErrorOf err) []]
                          else [Info (ErrorOf err)] @ finished b elapsed @ closeMigrator b
            | None \<Rightarrow> finished b elapsed @ closeMigrator b)"
  using assms by (simp add: downRun_def Let_def)

lemma dropRun_engine:
  assumes "forceDropPtr b \<or> response = ''y''"
  shows "dropRun b args response elapsed = setupMigrator b @
           (if forceDropPtr b then []
            else [Println ''Are you sure you want to drop the entire database schema? [y/N]'',
                  Info (Str ''Dropping the entire database schema'')]) @
           (case Drop (migrator b) of
              Some err \<Rightarrow> [Fatal (ErrorOf err) []]
            | None \<Rightarrow> finished b elapsed @ closeMigrator b)"
  using assms by (auto simp: dropRun_def Let_def)

lemma forceRun_engine:
  assumes "args \<noteq> []" and "ParseUint (args ! 0) = Inr v"
  shows "forceRun b args elapsed = setupMigrator b @
           (case Force (migrator b) (int_of_uint64 v) of
              Some err \<Rightarrow> [Fatal (ErrorOf err) []]
            | None \<Rightarrow> finished b elapsed @ closeMigrator b)"
  using assms by (simp add: forceRun_def)

text \<open>
  C6, as the claim states it, fails for \<^verbatim>\<open>drop\<close> and \<^verbatim>\<open>force\<close>: with an engine that
  answers \<^verbatim>\<open>ErrNoChange\<close>, \<^verbatim>\<open>drop\<close> (confirmed with \<^verbatim>\<open>y\<close>) and \<^verbatim>\<open>force 3\<close> both end in
  \<^verbatim>\<open>Fatal\<close> with that error's text.
\<close>

theorem drop_force_no_change_is_fatal:
  "Drop (migrator (builderWith (answeringEngine (Some ErrNoChange)))) = Some ErrNoChange \<and>
   dropRun (builderWith (answeringEngine (Some ErrNoChange))) [] ''y'' 5 =
     [Println ''Are you sure you want to drop the entire database schema? [y/N]'',
      Info (Str ''Dropping the entire database schema''),
      Fatal (ErrorOf ErrNoChange) []] \<and>
   Force (migrator (builderWith (answeringEngine (Some ErrNoChange)))) 3 = Some ErrNoChange \<and>
   forceRun (builderWith (answeringEngine (Some ErrNoChange))) [''3''] 5 =
     [Fatal (ErrorOf ErrNoChange) []]"
  by (simp add: dropRun_def forceRun_def Drop_def Force_def builderWith_sel answeringEngine_def
      setupMigrator_def ParseUint_example int_of_uint64_def)

text \<open>
  C6, amended. Once a handler has reached its call of the engine and the engine answers
  with an error: \<^verbatim>\<open>goto\<close>, \<^verbatim>\<open>up\<close> and \<^verbatim>\<open>down\<close> log \<^verbatim>\<open>ErrNoChange\<close> with
  \<^verbatim>\<open>Info\<close> and finish without \<^verbatim>\<open>Fatal\<close>, and end in \<^verbatim>\<open>Fatal\<close> with the error's text for
  every other error; \<^verbatim>\<open>drop\<close> and \<^verbatim>\<open>force\<close> end in \<^verbatim>\<open>Fatal\<close> with the error's text for
  every error, \<^verbatim>\<open>ErrNoChange\<close> included.
\<close>

theorem engine_error_handling:
  "(args \<noteq> [] \<and> ParseUint (args ! 0) = Inr v \<and> Goto (migrator b) v = Some err \<longrightarrow>
      (err = ErrNoChange \<longrightarrow>
         gotoRun b args elapsed =
           setupMigrator b @ [Info (ErrorOf ErrNoChange)] @ finished b elapsed @ closeMigrator b \<and>
         \<not> fatal (gotoRun b args elapsed)) \<and>
      (err \<noteq> ErrNoChange \<longrightarrow>
         gotoRun b args elapsed = setupMigrator b @ [Fatal (ErrorOf err) []])) \<and>
   (limit = (if args = [] then - 1 else int_of_uint64 n) \<and>
    (args \<noteq> [] \<longrightarrow> ParseUint (args ! 0) = Inr n) \<and> Up (migrator b) limit = Some err \<longrightarrow>
      (err = ErrNoChange \<longrightarrow>
         upRun b args elapsed =
           setupMigrator b @ [Info (ErrorOf ErrNoChange)] @ finished b elapsed @ closeMigrator b \<and>
         \<not> fatal (upRun b args elapsed)) \<and>
      (err \<noteq> ErrNoChange \<longrightarrow>
         upRun b args elapsed = setupMigrator b @ [Fatal (ErrorOf err) []])) \<and>
   (numDownMigrationsFromArgs (allPtr b) args = (num, needsConfirm, None) \<and>
    (needsConfirm \<longrightarrow> response = ''y'') \<and> Down (migrator b) num = Some err \<longrightarrow>
      (err = ErrNoChange \<longrightarrow>
         Info (ErrorOf ErrNoChange) \<in> set (downRun b args response elapsed) \<and>
         \<not> fatal (downRun b args response elapsed)) \<and>
      (err \<noteq> ErrNoChange \<longrightarrow>
         last (downRun b args response elapsed) = Fatal (ErrorOf err) [])) \<and>
   ((forceDropPtr b \<or> response = ''y'') \<and> Drop (migrator b) = Some err \<longrightarrow>
      last (dropRun b args response elapsed) = Fatal (ErrorOf err) []) \<and>
   (args \<noteq> [] \<and> ParseUint (args ! 0) = Inr v \<and>
    Force (migrator b) (int_of_uint64 v) = Some err \<longrightarrow>
      forceRun b args elapsed = setupMigrator b @ [Fatal (ErrorOf err) []])"
proof -
  have c1: "args \<noteq> [] \<and> ParseUint (args ! 0) = Inr v \<and> Goto (migrator b) v = Some err \<longrightarrow>
      (err = ErrNoChange \<longrightarrow>
         gotoRun b args elapsed =
           setupMigrator b @ [Info (ErrorOf ErrNoChange)] @ finished b elapsed @ closeMigrator b \<and>
         \<not> fatal (gotoRun b args elapsed)) \<and>
      (err \<noteq> ErrNoChange \<longrightarrow>
         gotoRun b args elapsed = setupMigrator b @ [Fatal (ErrorOf err) []])"
    using gotoRun_engine [of args v b elapsed] by simp
  have c2: "limit = (if args = [] then - 1 else int_of_uint64 n) \<and>
    (args \<noteq> [] \<longrightarrow> ParseUint (args ! 0) = Inr n) \<and> Up (migrator b) limit = Some err \<longrightarrow>
      (err = ErrNoChange \<longrightarrow>
         upRun b args elapsed =
           setupMigrator b @ [Info (ErrorOf ErrNoChange)] @ finished b elapsed @ closeMigrator b \<and>
         \<not> fatal (upRun b args elapsed)) \<and>
      (err \<noteq> ErrNoChange \<longrightarrow>
         upRun b args elapsed = setupMigrator b @ [Fatal (ErrorOf err) []])"
    using upRun_engine [of limit args n b elapsed] by auto
  have c3: "numDownMigrationsFromArgs (allPtr b) args = (num, needsConfirm, None) \<and>
    (needsConfirm \<longrightarrow> response = ''y'') \<and> Down (migrator b) num = Some err \<longrightarrow>
      (err = ErrNoChange \<longrightarrow>
         Info (ErrorOf ErrNoChange) \<in> set (downRun b args response elapsed) \<and>
         \<not> fatal (downRun b args response elapsed)) \<and>
      (err \<noteq> ErrNoChange \<longrightarrow>
         last (downRun b args response elapsed) = Fatal (ErrorOf err) [])"
    using downRun_engine [of b args num needsConfirm response elapsed] by auto
  have c4: "(forceDropPtr b \<or> response = ''y'') \<and> Drop (migrator b) = Some err \<longrightarrow>
      last (dropRun b args response elapsed) = Fatal (ErrorOf err) []"
    using dropRun_engine [of b response args elapsed] by auto
  have c5: "args \<noteq> [] \<and> ParseUint (args ! 0) = Inr v \<and>
    Force (migrator b) (int_of_uint64 v) = Some err \<longrightarrow>
      forceRun b args elapsed = setupMigrator b @ [Fatal (ErrorOf err) []]"
    using forceRun_engine [of args v b elapsed] by simp
  show ?thesis
    using c1 c2 c3 c4 c5 by blast
qed

theorem engine_error_handling_witness:
  "gotoRun (builderWith (answeringEngine (Some ErrNoChange))) [''3''] 5 =
     [Info (ErrorOf ErrNoChange)] \<and>
   upRun (builderWith (answeringEngine (Some ErrNoChange))) [''3''] 5 =
     [Info (ErrorOf ErrNoChange)] \<and>
   Info (ErrorOf ErrNoChange) \<in>
     set (downRun (builderWith (answeringEngine (Some ErrNoChange))) [''3''] ''y'' 5) \<and>
   \<not> fatal (downRun (builderWith (answeringEngine (Some ErrNoChange))) [''3''] ''y'' 5) \<and>
   last (dropRun (builderWith (answeringEngine (Some ErrNoChange))) [''3''] ''y'' 5) =
     Fatal (ErrorOf ErrNoChange) [] \<and>
   forceRun (builderWith (answeringEngine (Some ErrNoChange))) [''3''] 5 =
     [Fatal (ErrorOf ErrNoChange) []] \<and>
   gotoRun (builderWith (answeringEngine (Some (Foreign ''connection refused'')))) [''3''] 5 =
     [Fatal (ErrorOf (Foreign ''connection refused'')) []] \<and>
   upRun (builderWith (answeringEngine (Some (Foreign ''connection refused'')))) [''3''] 5 =
     [Fatal (ErrorOf (Foreign ''connection refused'')) []] \<and>
   last (downRun (builderWith (answeringEngine (Some (Foreign ''connection refused''))))
           [''3''] ''y'' 5) =
     Fatal (ErrorOf (Foreign ''connection refused'')) []"
proof -
  have nd: "numDownMigrationsFromArgs False [''3''] = (3, False, None)"
    by (simp add: numDownMigrationsFromArgs_def ParseUint_example int_of_uint64_def)
  have ev: "Goto (migrator (builderWith (answeringEngine a))) 3 = a"
    "Up (migrator (builderWith (answeringEngine a))) 3 = a"
    "Down (migrator (builderWith (answeringEngine a))) 3 = a"
    "Drop (migrator (builderWith (answeringEngine a))) = a"
    "Force (migrator (builderWith (answeringEngine a))) 3 = a" for a
    by (simp_all add: Goto_def Up_def Down_def Drop_def Force_def builderWith_sel
        answeringEngine_def)
  have quiet: "setupMigrator (builderWith e) = []" "finished (builderWith e) 5 = []"
    "closeMigrator (builderWith (answeringEngine a)) = []" for e a
    by (simp_all add: setupMigrator_def finished_def closeMigrator_def Close_def builderWith_sel
        answeringEngine_def)
  show ?thesis
    using
      engine_error_handling [where b = "builderWith (answeringEngine (Some ErrNoChange))"
        and args = "[''3'']" and v = 3 and n = 3 and limit = 3 and num = 3
        and needsConfirm = False and response = "''y''" and elapsed = 5 and err = ErrNoChange]
      engine_error_handling
        [where b = "builderWith (answeringEngine (Some (Foreign ''connection refused'')))"
        and args = "[''3'']" and v = 3 and n = 3 and limit = 3 and num = 3
        and needsConfirm = False and response = "''y''" and elapsed = 5
        and err = "Foreign ''connection refused''"]
    by (simp add: nd ev quiet builderWith_sel ParseUint_example int_of_uint64_def)
qed

subsection \<open>The count of the down command\<close>

lemma int_of_uint64_small: "n < 2 ^ 63 \<Longrightarrow> int_of_uint64 n = int n"
  by (simp add: int_of_uint64_def)

lemma numDownMigrationsFromArgs_cases:
  "numDownMigrationsFromArgs False [] = (- 1, True, None)"
  "numDownMigrationsFromArgs True [] = (- 1, False, None)"
  "args \<noteq> [] \<Longrightarrow> numDownMigrationsFromArgs True args =
     (0, False, Some (errorString ''-all cannot be used with other arguments''))"
  "ParseUint a = Inr n \<Longrightarrow> n < 2 ^ 63 \<Longrightarrow>
     numDownMigrationsFromArgs False [a] = (int n, False, None)"
  "ParseUint a = Inl e \<Longrightarrow> numDownMigrationsFromArgs False [a] =
     (0, False, Some (errorString ''can't read limit argument N''))"
  "length args > 1 \<Longrightarrow> numDownMigrationsFromArgs False args =
     (0, False, Some (errorString ''too many arguments''))"
  by (auto simp: numDownMigrationsFromArgs_def int_of_uint64_small)

lemma numDownMigrationsFromArgs_confirm:
  "numDownMigrationsFromArgs applyAll args = (num, needsConfirm, err) \<Longrightarrow>
   needsConfirm \<longleftrightarrow> \<not> applyAll \<and> args = []"
  by (auto simp: numDownMigrationsFromArgs_def Let_def split: if_splits sum.splits)

lemma downRun_asks_iff:
  "Println ''Are you sure you want to apply all down migrations? [y/N]''
     \<in> set (downRun b args response elapsed) \<longleftrightarrow>
   fst (snd (numDownMigrationsFromArgs (allPtr b) args))"
proof -
  obtain num needsConfirm err where
    nd: "numDownMigrationsFromArgs (allPtr b) args = (num, needsConfirm, err)"
    by (cases "numDownMigrationsFromArgs (allPtr b) args") auto
  have ok: "err = None" if needsConfirm
    using nd that by (auto simp: numDownMigrationsFromArgs_def Let_def split: if_splits sum.splits)
  show ?thesis
    using nd ok
    by (cases err)
      (auto simp: downRun_def Let_def setupMigrator_def finished_def closeMigrator_def
        split: option.splits prod.splits if_splits)
qed

lemma numDownMigrationsFromArgs_count:
  "n < 2 ^ 63 \<Longrightarrow> numDownMigrationsFromArgs False [dec n] = (int n, False, None)"
proof -
  assume a: "n < 2 ^ 63"
  have "(2::nat) ^ 63 < 2 ^ 64" by simp
  then have b: "n < 2 ^ 64" using a by linarith
  show ?thesis using ParseUint_dec [OF b] a
    by (simp add: numDownMigrationsFromArgs_def int_of_uint64_def)
qed

text \<open>
  C8. The claim says that a single numeric argument \<open>n\<close> gives \<open>(n, false, nil)\<close>. The
  code parses the argument as a \<^verbatim>\<open>uint64\<close> and converts it with \<^verbatim>\<open>int(n)\<close>, with no
  range check: from \<open>2 ^ 63\<close> on the count comes out negative. For the argument
  18446744073709551615 the result is \<open>(-1, false, nil)\<close>, the value that stands for
  \<^verbatim>\<open>-all\<close>, and the handler calls the engine's \<^verbatim>\<open>Down\<close> (every migration) without asking.
  For counts below \<open>2 ^ 63\<close> and in the other cases the code does what the claim lists
  (\<open>numDownMigrationsFromArgs_cases\<close>, \<open>numDownMigrationsFromArgs_count\<close>), and the handler asks exactly when the second
  component is true (\<open>downRun_asks_iff\<close>).
\<close>

theorem numDownMigrationsFromArgs_large_count:
  "numDownMigrationsFromArgs False [''18446744073709551615''] = (- 1, False, None) \<and>
   downRun (builderWith namedEngine) [''18446744073709551615''] [] 0 =
     [Fatal (ErrorOf (Foreign ''Down'')) []]"
  by (simp add: numDownMigrationsFromArgs_def ParseUint_example int_of_uint64_def downRun_def
      builderWith_sel setupMigrator_def Down_def namedEngine_def)

subsection \<open>The guard of the force command\<close>



subsection \<open>Extension normalization\<close>

lemma normExt_dot: "e \<noteq> [] \<Longrightarrow> \<not> prefix ''.'' e \<Longrightarrow> normExt (''.'' @ e) = normExt e"
  by (simp add: normExt_def TrimPrefix_def)

text \<open>
  C10. \<^verbatim>\<open>upAndDownFilePath\<close> turns the empty extension into \<^verbatim>\<open>.sql\<close>, and a single
  leading dot makes no difference: for a non-empty extension \<open>e\<close> that does not start with a
  dot, the calls with \<open>e\<close> and with \<^verbatim>\<open>.\<close> followed by \<open>e\<close> give the same result, paths and
  errors alike, in every environment.
\<close>

theorem upAndDownFilePath_ext_normalized:
  "normExt [] = ''.sql'' \<and>
   upAndDownFilePath sys m fs tz format name [] seq seqDigits =
     upAndDownFilePath sys m fs tz format name ''.sql'' seq seqDigits \<and>
   (e \<noteq> [] \<and> \<not> prefix ''.'' e \<longrightarrow>
      normExt e = ''.'' @ e \<and>
      upAndDownFilePath sys m fs tz format name (''.'' @ e) seq seqDigits =
        upAndDownFilePath sys m fs tz format name e seq seqDigits)"
proof -
  have a: "normExt [] = ''.sql''"
    by (simp add: normExt_def)
  have b: "normExt ''.sql'' = ''.sql''"
    by (simp add: normExt_def TrimPrefix_def)
  have c: "normExt e = ''.'' @ e" if "e \<noteq> []" "\<not> prefix ''.'' e"
    using that by (simp add: normExt_def TrimPrefix_def)
  show ?thesis
    using a b c normExt_dot [of e] by (simp add: upAndDownFilePath_def)
qed

theorem upAndDownFilePath_ext_normalized_witness:
  "''sql'' \<noteq> [] \<and> \<not> prefix ''.'' ''sql'' \<and>
   normExt ''sql'' = ''.sql'' \<and>
   upAndDownFilePath exampleEnv exampleMigrator [] [] [] ''init'' ''.sql'' False 6 =
     upAndDownFilePath exampleEnv exampleMigrator [] [] [] ''init'' ''sql'' False 6"
  using upAndDownFilePath_ext_normalized
    [of exampleEnv exampleMigrator "[]" "[]" "[]" "''init''" False 6 "''sql''"]
  by simp

end
